theory Spec2Isabelle
  imports Main
begin

section \<open>Drug Central ingest: the line transducer of \<open>drug_central.py\<close>\<close>

text \<open>
  The module reads a tab-separated table of drug - target interactions and writes a node
  table and an edge table. This theory embeds \<open>DrugCentralTransform.run\<close> and
  \<open>parse_drug_central_line\<close> as HOL functions.

  Conventions of the embedding.
  \<^item> A Python \<open>str\<close> is a \<open>string\<close>; one \<open>char\<close> stands for one code point below 256.
    Code points above U+00FF are outside the model (they would only matter to
    \<open>str.strip\<close>, which also removes the Unicode spaces above that range).
  \<^item> The input is the decoded text of the archive after newline translation; gzip and
    the file system are not modelled, so the I/O faults of \<open>open\<close> do not occur here.
  \<^item> An output file handle is the list of the strings written to it so far, oldest
    first; the bytes of the file are their concatenation (\<open>contents\<close>).
  \<^item> A raised exception is a value of type \<open>error\<close>. A function that may raise returns
    \<open>error + 'a\<close>; the transducer returns \<open>error option \<times> files\<close>, the files being what
    the \<open>with\<close> block leaves behind when it is left, normally or by an exception.
\<close>

subsection \<open>Strings\<close>

definition tab :: char where
  "tab = CHR 0x09"

definition newline :: char where
  "newline = CHR 0x0A"

definition dquote :: char where
  "dquote = CHR 0x22"

definition pipe :: char where
  "pipe = CHR ''|''"

text \<open>\<open>str.isspace\<close> on the code points below 256.\<close>

definition isspace :: "char \<Rightarrow> bool" where
  "isspace c \<longleftrightarrow> c \<in> set [CHR 0x09, CHR 0x0A, CHR 0x0B, CHR 0x0C, CHR 0x0D,
     CHR 0x1C, CHR 0x1D, CHR 0x1E, CHR 0x1F, CHR 0x20, CHR 0x85, CHR 0xA0]"

text \<open>\<open>s.strip()\<close>: whitespace is removed from both ends.\<close>

definition strip :: "string \<Rightarrow> string" where
  "strip s = rev (dropWhile isspace (rev (dropWhile isspace s)))"

text \<open>\<open>s.split(c)\<close> for a separator of one character: never empty, \<open>''''.split(c) = ['''']\<close>.\<close>

fun split_on :: "char \<Rightarrow> string \<Rightarrow> string list" where
  "split_on c [] = [[]]"
| "split_on c (x # xs) =
     (if x = c then [] # split_on c xs
      else (case split_on c xs of
              [] \<Rightarrow> [[x]]
            | w # ws \<Rightarrow> (x # w) # ws))"

text \<open>\<open>sep.join(items)\<close>.\<close>

fun join :: "string \<Rightarrow> string list \<Rightarrow> string" where
  "join sep [] = []"
| "join sep [x] = x"
| "join sep (x # y # ys) = x @ sep @ join sep (y # ys)"

text \<open>\<open>s.replace('"', '')\<close>.\<close>

definition remove_quotes :: "string \<Rightarrow> string" where
  "remove_quotes s = filter (\<lambda>c. c \<noteq> dquote) s"

text \<open>
  Iterating over a text file: the text is cut after every newline, each line keeps its
  newline, and a last line without one is still a line.
\<close>

fun file_lines :: "string \<Rightarrow> string list" where
  "file_lines [] = []"
| "file_lines (x # xs) =
     (if x = newline then [x] # file_lines xs
      else (case file_lines xs of
              [] \<Rightarrow> [[x]]
            | l # ls \<Rightarrow> (x # l) # ls))"

text \<open>The first line of a file, without its newline.\<close>

definition first_line :: "string \<Rightarrow> string" where
  "first_line s = takeWhile (\<lambda>c. c \<noteq> newline) s"

subsection \<open>Errors, row records, files\<close>

datatype error =
    ItemInDictNotFound
  | KeyError string
  | DataShapeError
  | HeaderDataLengthError

type_synonym row = "string \<rightharpoonup> string"

record files =
  node :: "string list"
  edge :: "string list"

definition contents :: "string list \<Rightarrow> string" where
  "contents fh = concat fh"

subsection \<open>Helpers of \<open>kg_covid_19.utils.transform_utils\<close> and the base class\<close>

text \<open>
  Modelled from the spec: \<open>data_to_dict\<close> of \<open>kg_covid_19.utils.transform_utils\<close> is
  imported by the module and its source is not part of it. Spec, per-row algorithm,
  step 2: "Build a Row Record by pairing the header sequence positionally with the split
  fields. Fails (signals a data-shape error) if field count does not match header count".
  Of two columns with one name the later one is kept, as in a Python \<open>dict\<close>.
\<close>

definition data_to_dict :: "string list \<Rightarrow> string list \<Rightarrow> error + row" where
  "data_to_dict these_keys these_values =
     (if length these_keys \<noteq> length these_values then Inl DataShapeError
      else Inr (Map.empty(these_keys [\<mapsto>] these_values)))"

text \<open>
  Modelled from the spec: \<open>get_item_by_priority\<close> and its exception
  \<open>ItemInDictNotFound\<close> are imported from \<open>kg_covid_19.utils.transform_utils\<close>. Spec,
  step 4: "Resolve the gene-target identifier field using an ordered fallback list of
  candidate field names [...] if none of the candidate fields is present in the row, treat
  this as a recoverable condition"; data model: a row is processed "only if an identifier
  field for the gene target is present and non-empty". So a candidate resolves when the
  row has it with a non-empty value, the first such candidate wins, and when none
  resolves \<open>ItemInDictNotFound\<close> is raised.
\<close>

fun get_item_by_priority :: "row \<Rightarrow> string list \<Rightarrow> error + string" where
  "get_item_by_priority items_dict [] = Inl ItemInDictNotFound"
| "get_item_by_priority items_dict (key # keys) =
     (case items_dict key of
        None \<Rightarrow> get_item_by_priority items_dict keys
      | Some v \<Rightarrow> if v \<noteq> [] then Inr v else get_item_by_priority items_dict keys)"

text \<open>
  Modelled from the spec: \<open>write_node_edge_item\<close> is imported from
  \<open>kg_covid_19.utils.transform_utils\<close>. Spec, output discipline: "every node/edge write is
  a single atomic append of one tab-joined line (value count must equal header length)
  -- if the number of values does not match the number of header columns, this is a fatal
  data-integrity fault".
\<close>

definition write_node_edge_item :: "string list \<Rightarrow> string list \<Rightarrow> string list \<Rightarrow> error + string list" where
  "write_node_edge_item fh header data =
     (if length header \<noteq> length data then Inl HeaderDataLengthError
      else Inr (fh @ [join [tab] data @ [newline]]))"

text \<open>
  Modelled from the spec: \<open>parse_header\<close> is imported from
  \<open>kg_covid_19.utils.transform_utils\<close>. Spec, data model: the header is "an ordered sequence
  of column names, parsed once from the first line of the input file", which is "a
  tab-separated header". The line is stripped as a data line is (otherwise the last name
  would keep the newline) and cut at the tabs.
\<close>

definition parse_header :: "string \<Rightarrow> string list" where
  "parse_header header_string = split_on tab (strip header_string)"

text \<open>
  Modelled from the spec: \<open>node_header\<close> is an attribute of the base class \<open>Transform\<close>,
  whose source is not part of the module. Spec, node output file: "Header: id, name,
  category".
\<close>

definition node_header :: "string list" where
  "node_header = [''id'', ''name'', ''category'']"

subsection \<open>The module\<close>

text \<open>\<open>source_name\<close>, set by \<open>__init__\<close>, and the constants at the head of \<open>run\<close>.\<close>

definition source_name :: string where
  "source_name = ''drug_central''"

definition drug_node_type :: string where
  "drug_node_type = ''biolink:Drug''"

definition gene_curie_prefix :: string where
  "gene_curie_prefix = ''UniProtKB:''"

definition drug_curie_prefix :: string where
  "drug_curie_prefix = ''DrugCentral:''"

definition gene_node_type :: string where
  "gene_node_type = ''biolink:Gene''"

definition drug_gene_edge_label :: string where
  "drug_gene_edge_label = ''biolink:interacts_with''"

definition drug_gene_edge_relation :: string where
  "drug_gene_edge_relation = ''RO:0002436''"

definition edge_header :: "string list" where
  "edge_header = [''subject'', ''edge_label'', ''object'', ''relation'', ''provided_by'',
     ''comment'']"

definition default_species :: string where
  "default_species = ''Homo sapiens''"

text \<open>\<open>parse_drug_central_line\<close>, lines 107 to 122.\<close>

definition parse_drug_central_line :: "string \<Rightarrow> string list \<Rightarrow> error + row" where
  "parse_drug_central_line this_line header_items =
     data_to_dict header_items (map remove_quotes (split_on tab (strip this_line)))"

text \<open>
  The loop \<open>for gene_id in gene_ids\<close>, lines 84 to 102. The list of values of a write is
  built before the call, so a missing key raises before anything is written by it.
\<close>

fun gene_loop :: "string \<Rightarrow> row \<Rightarrow> string list \<Rightarrow> files \<Rightarrow> error option \<times> files" where
  "gene_loop drug_id items_dict [] fs = (None, fs)"
| "gene_loop drug_id items_dict (gene_id # gene_ids) fs =
     (let gene_id' = gene_curie_prefix @ gene_id in
      case items_dict ''GENE'' of
        None \<Rightarrow> (Some (KeyError ''GENE''), fs)
      | Some gene \<Rightarrow>
          (case write_node_edge_item (node fs) node_header [gene_id', gene, gene_node_type] of
             Inl e \<Rightarrow> (Some e, fs)
           | Inr n \<Rightarrow>
               (let fs1 = fs\<lparr>node := n\<rparr> in
                case items_dict ''ACT_COMMENT'' of
                  None \<Rightarrow> (Some (KeyError ''ACT_COMMENT''), fs1)
                | Some act_comment \<Rightarrow>
                    (case write_node_edge_item (edge fs1) edge_header
                            [drug_id, drug_gene_edge_label, gene_id', drug_gene_edge_relation,
                             source_name, act_comment] of
                       Inl e \<Rightarrow> (Some e, fs1)
                     | Inr ed \<Rightarrow> gene_loop drug_id items_dict gene_ids (fs1\<lparr>edge := ed\<rparr>)))))"

text \<open>
  The body of \<open>for line in interactions\<close> after the line is parsed, lines 60 to 102.
  \<open>(None, fs)\<close> is the end of the body, by \<open>continue\<close> or by reaching its last statement.
\<close>

definition process_row :: "string \<Rightarrow> row \<Rightarrow> files \<Rightarrow> error option \<times> files" where
  "process_row species items_dict fs =
     (if items_dict ''ORGANISM'' = None \<or> items_dict ''ORGANISM'' \<noteq> Some species
      then (None, fs)
      else
        (case get_item_by_priority items_dict [''ACCESSION''] of
           Inl e \<Rightarrow> (if e = ItemInDictNotFound then (None, fs) else (Some e, fs))
         | Inr gene_id_string \<Rightarrow>
             (let gene_ids = split_on pipe gene_id_string in
              case get_item_by_priority items_dict [''STRUCT_ID''] of
                Inl e \<Rightarrow> (Some e, fs)
              | Inr struct_id \<Rightarrow>
                  (let drug_id = drug_curie_prefix @ struct_id in
                   case items_dict ''DRUG_NAME'' of
                     None \<Rightarrow> (Some (KeyError ''DRUG_NAME''), fs)
                   | Some drug_name \<Rightarrow>
                       (case write_node_edge_item (node fs) node_header
                               [drug_id, drug_name, drug_node_type] of
                          Inl e \<Rightarrow> (Some e, fs)
                        | Inr n \<Rightarrow> gene_loop drug_id items_dict gene_ids (fs\<lparr>node := n\<rparr>))))))"

text \<open>The loop \<open>for line in interactions\<close>, lines 57 to 102: the first exception ends it.\<close>

fun process_lines :: "string \<Rightarrow> string list \<Rightarrow> string list \<Rightarrow> files \<Rightarrow> error option \<times> files" where
  "process_lines species header_items [] fs = (None, fs)"
| "process_lines species header_items (line # lines) fs =
     (case parse_drug_central_line line header_items of
        Inl e \<Rightarrow> (Some e, fs)
      | Inr items_dict \<Rightarrow>
          (case process_row species items_dict fs of
             (Some e, fs') \<Rightarrow> (Some e, fs')
           | (None, fs') \<Rightarrow> process_lines species header_items lines fs'))"

text \<open>
  \<open>run\<close>, lines 31 to 104. Its parameter \<open>data_file\<close> is never read and is left out.
  \<open>prior\<close> is what the two output files held when \<open>run\<close> was called: \<open>open(..., 'w')\<close>
  empties them. \<open>readline\<close> on a file at its end returns the empty string.
\<close>

definition run :: "string \<Rightarrow> string \<Rightarrow> files \<Rightarrow> error option \<times> files" where
  "run species interactions prior =
     (let fs0 = prior\<lparr>node := [], edge := []\<rparr>;
          fs1 = fs0\<lparr>node := node fs0 @ [join [tab] node_header @ [newline]]\<rparr>;
          fs2 = fs1\<lparr>edge := edge fs1 @ [join [tab] edge_header @ [newline]]\<rparr>;
          lines = file_lines interactions;
          header_items = parse_header (case lines of [] \<Rightarrow> [] | l # _ \<Rightarrow> l)
      in process_lines species header_items (tl lines) fs2)"

subsection \<open>Well-formed output\<close>

text \<open>
  Two predicates for the proofs about the output files. A data line is one line of text,
  ended by its only newline, that starts with the \<open>D\<close> of \<open>DrugCentral:\<close> or the \<open>U\<close> of
  \<open>UniProtKB:\<close>. A file handle is well written for a header line when that line was
  written first and every later write is a data line.
\<close>

definition data_line :: "string \<Rightarrow> bool" where
  "data_line w \<longleftrightarrow>
     w \<noteq> [] \<and> last w = newline \<and> newline \<notin> set (butlast w) \<and>
     hd w \<in> {CHR ''D'', CHR ''U''}"

definition written_ok :: "string \<Rightarrow> string list \<Rightarrow> bool" where
  "written_ok h fh \<longleftrightarrow> fh \<noteq> [] \<and> hd fh = h \<and> (\<forall>w \<in> set (tl fh). data_line w)"

section \<open>Properties\<close>

subsection \<open>One step of the loop\<close>

lemma process_lines_step:
  "parse_drug_central_line line header_items = Inr items_dict \<Longrightarrow>
   process_row species items_dict fs = (None, fs') \<Longrightarrow>
   process_lines species header_items (line # lines) fs =
     process_lines species header_items lines fs'"
  by simp

lemma process_lines_raise:
  "parse_drug_central_line line header_items = Inr items_dict \<Longrightarrow>
   process_row species items_dict fs = (Some e, fs') \<Longrightarrow>
   process_lines species header_items (line # lines) fs = (Some e, fs')"
  by simp

text \<open>An exception raised while a prefix of the lines is read ends the whole loop.\<close>

lemma process_lines_append:
  "process_lines species header_items (xs @ ys) fs =
     (case process_lines species header_items xs fs of
        (None, fs') \<Rightarrow> process_lines species header_items ys fs'
      | (Some e, fs') \<Rightarrow> (Some e, fs'))"
  by (induction xs arbitrary: fs) (auto split: sum.splits option.splits prod.splits)

lemma get_item_single:
  "get_item_by_priority items_dict [key] =
     (case items_dict key of
        None \<Rightarrow> Inl ItemInDictNotFound
      | Some v \<Rightarrow> if v = [] then Inl ItemInDictNotFound else Inr v)"
  by (simp split: option.splits)

text \<open>
  A lookup with one candidate returns a value exactly when the record has the key with a
  value that is not empty.
\<close>

lemma get_item_single_iff:
  "get_item_by_priority items_dict [key] = Inr v \<longleftrightarrow> items_dict key = Some v \<and> v \<noteq> []"
  by (auto simp: get_item_single split: option.splits)

lemma split_on_not_Nil: "split_on c s \<noteq> []"
  by (induction s) (auto split: list.splits)

subsection \<open>What one row writes\<close>

lemma gene_loop_complete:
  assumes "items_dict ''GENE'' = Some gene" and "items_dict ''ACT_COMMENT'' = Some act_comment"
  shows "gene_loop drug_id items_dict gene_ids fs =
     (None, fs\<lparr>node := node fs @
                 map (\<lambda>g. join [tab] [gene_curie_prefix @ g, gene, gene_node_type] @ [newline]) gene_ids,
               edge := edge fs @
                 map (\<lambda>g. join [tab] [drug_id, drug_gene_edge_label, gene_curie_prefix @ g,
                        drug_gene_edge_relation, source_name, act_comment] @ [newline]) gene_ids\<rparr>)"
  using assms
  by (induction gene_ids arbitrary: fs)
     (simp_all add: write_node_edge_item_def node_header_def edge_header_def)

lemma process_row_complete:
  assumes "items_dict ''ORGANISM'' = Some species"
    and "get_item_by_priority items_dict [''ACCESSION''] = Inr accession"
    and "get_item_by_priority items_dict [''STRUCT_ID''] = Inr struct_id"
    and "items_dict ''DRUG_NAME'' = Some drug_name"
    and "items_dict ''GENE'' = Some gene"
    and "items_dict ''ACT_COMMENT'' = Some act_comment"
  shows "process_row species items_dict fs =
     (None, fs\<lparr>node := node fs @
                 (join [tab] [drug_curie_prefix @ struct_id, drug_name, drug_node_type] @ [newline]) #
                 map (\<lambda>g. join [tab] [gene_curie_prefix @ g, gene, gene_node_type] @ [newline])
                   (split_on pipe accession),
               edge := edge fs @
                 map (\<lambda>g. join [tab] [drug_curie_prefix @ struct_id, drug_gene_edge_label,
                        gene_curie_prefix @ g, drug_gene_edge_relation, source_name, act_comment]
                        @ [newline])
                   (split_on pipe accession)\<rparr>)"
  using assms(1-4)
  by (simp add: process_row_def write_node_edge_item_def node_header_def Let_def
      gene_loop_complete [OF assms(5,6)] del: get_item_by_priority.simps)

lemma split_example: "split_on pipe ''P12345|Q67890'' = [''P12345'', ''Q67890'']"
  by (simp add: pipe_def)

lemma files_reset: "(r :: files)\<lparr>node := a, edge := b\<rparr> = \<lparr>node = a, edge = b\<rparr>"
  by simp

lemma gene_loop_missing_gene:
  assumes "items_dict ''GENE'' = None" and "gene_ids \<noteq> []"
  shows "gene_loop drug_id items_dict gene_ids fs = (Some (KeyError ''GENE''), fs)"
  using assms by (cases gene_ids) simp_all

lemma gene_loop_missing_comment:
  assumes "items_dict ''GENE'' = Some gene" and "items_dict ''ACT_COMMENT'' = None"
    and "gene_ids \<noteq> []"
  shows "gene_loop drug_id items_dict gene_ids fs =
     (Some (KeyError ''ACT_COMMENT''),
      fs\<lparr>node := node fs @
        [join [tab] [gene_curie_prefix @ hd gene_ids, gene, gene_node_type] @ [newline]]\<rparr>)"
  using assms by (cases gene_ids) (simp_all add: write_node_edge_item_def node_header_def)

lemma process_row_to_gene_loop:
  assumes "items_dict ''ORGANISM'' = Some species"
    and "get_item_by_priority items_dict [''ACCESSION''] = Inr accession"
    and "get_item_by_priority items_dict [''STRUCT_ID''] = Inr struct_id"
    and "items_dict ''DRUG_NAME'' = Some drug_name"
  shows "process_row species items_dict fs =
     gene_loop (drug_curie_prefix @ struct_id) items_dict (split_on pipe accession)
       (fs\<lparr>node := node fs @
          [join [tab] [drug_curie_prefix @ struct_id, drug_name, drug_node_type] @ [newline]]\<rparr>)"
  using assms
  by (simp add: process_row_def write_node_edge_item_def node_header_def Let_def
      del: get_item_by_priority.simps)

lemma process_row_missing_drug_name:
  assumes "items_dict ''ORGANISM'' = Some species"
    and "get_item_by_priority items_dict [''ACCESSION''] = Inr accession"
    and "get_item_by_priority items_dict [''STRUCT_ID''] = Inr struct_id"
    and "items_dict ''DRUG_NAME'' = None"
  shows "process_row species items_dict fs = (Some (KeyError ''DRUG_NAME''), fs)"
  using assms
  by (simp add: process_row_def Let_def del: get_item_by_priority.simps)

lemma process_row_struct_id_error:
  assumes "items_dict ''ORGANISM'' = Some species"
    and "get_item_by_priority items_dict [''ACCESSION''] = Inr accession"
    and "get_item_by_priority items_dict [''STRUCT_ID''] = Inl e"
  shows "process_row species items_dict fs = (Some ItemInDictNotFound, fs)"
proof -
  from assms(3) have "e = ItemInDictNotFound"
    by (simp add: get_item_single split: option.splits if_splits del: get_item_by_priority.simps)
  with assms show ?thesis
    by (simp add: process_row_def Let_def del: get_item_by_priority.simps)
qed

subsection \<open>The organism filter\<close>

text \<open>
  Claim C1. A data row whose record has no \<open>ORGANISM\<close> entry, or one that differs from
  the target organism (the comparison is equality of strings, so it is case-sensitive),
  leaves both output files as they were, raises nothing, and the loop goes on with the
  next line.
\<close>

theorem organism_mismatch_skips_row:
  assumes "parse_drug_central_line line header_items = Inr items_dict"
    and "items_dict ''ORGANISM'' \<noteq> Some species"
  shows "process_row species items_dict fs = (None, fs) \<and>
         process_lines species header_items (line # lines) fs =
           process_lines species header_items lines fs"
proof -
  from assms(2) have skip: "process_row species items_dict fs = (None, fs)"
    by (simp add: process_row_def)
  from process_lines_step [OF assms(1) skip] skip show ?thesis
    by simp
qed

text \<open>The row \<open>homo sapiens\<close>, in lower case, against the default target \<open>Homo sapiens\<close>.\<close>

theorem organism_mismatch_skips_row_witness:
  "parse_drug_central_line (''homo sapiens'' @ tab # ''P00001'' @ [newline]) [''ORGANISM'', ''ACCESSION'']
     = Inr [''ORGANISM'' \<mapsto> ''homo sapiens'', ''ACCESSION'' \<mapsto> ''P00001'']
   \<and> [''ORGANISM'' \<mapsto> ''homo sapiens'', ''ACCESSION'' \<mapsto> ''P00001''] ''ORGANISM'' \<noteq> Some default_species
   \<and> process_row default_species [''ORGANISM'' \<mapsto> ''homo sapiens'', ''ACCESSION'' \<mapsto> ''P00001'']
        \<lparr>node = [], edge = []\<rparr> = (None, \<lparr>node = [], edge = []\<rparr>)
   \<and> process_lines default_species [''ORGANISM'', ''ACCESSION'']
        [''homo sapiens'' @ tab # ''P00001'' @ [newline]] \<lparr>node = [], edge = []\<rparr>
      = (None, \<lparr>node = [], edge = []\<rparr>)"
proof -
  have p: "parse_drug_central_line (''homo sapiens'' @ tab # ''P00001'' @ [newline]) [''ORGANISM'', ''ACCESSION'']
     = Inr [''ORGANISM'' \<mapsto> ''homo sapiens'', ''ACCESSION'' \<mapsto> ''P00001'']"
    by (simp add: parse_drug_central_line_def data_to_dict_def strip_def isspace_def tab_def
        newline_def remove_quotes_def dquote_def)
  have o: "[''ORGANISM'' \<mapsto> ''homo sapiens'', ''ACCESSION'' \<mapsto> ''P00001''] ''ORGANISM'' \<noteq> Some default_species"
    by (simp add: default_species_def)
  have e: "process_lines default_species [''ORGANISM'', ''ACCESSION''] [] \<lparr>node = [], edge = []\<rparr>
      = (None, \<lparr>node = [], edge = []\<rparr>)"
    by simp
  note t = organism_mismatch_skips_row [OF p o, of "\<lparr>node = [], edge = []\<rparr>" "[]", unfolded e]
  from p o t show ?thesis by blast
qed

subsection \<open>The accession is split into genes\<close>

text \<open>
  Claim C2. Take a row that passes the organism filter, whose \<open>ACCESSION\<close> lookup of line 65
  returns a value and whose other fields are there. The value is cut at every \<open>|\<close>. The
  node file receives the drug line and then one gene line for each piece, the edge file one
  edge line for each piece. All edge lines of the row have the same subject, edge label,
  relation and source and carry the \<open>ACT_COMMENT\<close> of the row; they differ in the object
  only. For \<open>ACCESSION = P12345|Q67890\<close> these are exactly two gene lines and two edge
  lines.
\<close>

theorem accession_split_into_genes:
  assumes "items_dict ''ORGANISM'' = Some species"
    and "get_item_by_priority items_dict [''ACCESSION''] = Inr accession"
    and "get_item_by_priority items_dict [''STRUCT_ID''] = Inr struct_id"
    and "items_dict ''DRUG_NAME'' = Some drug_name"
    and "items_dict ''GENE'' = Some gene"
    and "items_dict ''ACT_COMMENT'' = Some act_comment"
  shows "process_row species items_dict fs =
     (None, fs\<lparr>node := node fs @
                 (join [tab] [drug_curie_prefix @ struct_id, drug_name, drug_node_type] @ [newline]) #
                 map (\<lambda>g. join [tab] [gene_curie_prefix @ g, gene, gene_node_type] @ [newline])
                   (split_on pipe accession),
               edge := edge fs @
                 map (\<lambda>g. join [tab] [drug_curie_prefix @ struct_id, drug_gene_edge_label,
                        gene_curie_prefix @ g, drug_gene_edge_relation, source_name, act_comment]
                        @ [newline])
                   (split_on pipe accession)\<rparr>)
     \<and> (accession = ''P12345|Q67890'' \<longrightarrow>
          process_row species items_dict fs =
            (None, fs\<lparr>node := node fs @
                 [join [tab] [''DrugCentral:'' @ struct_id, drug_name, ''biolink:Drug''] @ [newline],
                  join [tab] [''UniProtKB:P12345'', gene, ''biolink:Gene''] @ [newline],
                  join [tab] [''UniProtKB:Q67890'', gene, ''biolink:Gene''] @ [newline]],
               edge := edge fs @
                 [join [tab] [''DrugCentral:'' @ struct_id, ''biolink:interacts_with'',
                    ''UniProtKB:P12345'', ''RO:0002436'', ''drug_central'', act_comment] @ [newline],
                  join [tab] [''DrugCentral:'' @ struct_id, ''biolink:interacts_with'',
                    ''UniProtKB:Q67890'', ''RO:0002436'', ''drug_central'', act_comment] @ [newline]]\<rparr>))"
proof (intro conjI impI)
  show g: "process_row species items_dict fs =
     (None, fs\<lparr>node := node fs @
                 (join [tab] [drug_curie_prefix @ struct_id, drug_name, drug_node_type] @ [newline]) #
                 map (\<lambda>g. join [tab] [gene_curie_prefix @ g, gene, gene_node_type] @ [newline])
                   (split_on pipe accession),
               edge := edge fs @
                 map (\<lambda>g. join [tab] [drug_curie_prefix @ struct_id, drug_gene_edge_label,
                        gene_curie_prefix @ g, drug_gene_edge_relation, source_name, act_comment]
                        @ [newline])
                   (split_on pipe accession)\<rparr>)"
    by (rule process_row_complete [OF assms])
  assume "accession = ''P12345|Q67890''"
  then have "split_on pipe accession = [''P12345'', ''Q67890'']"
    by (simp only: split_example)
  with g show "process_row species items_dict fs =
            (None, fs\<lparr>node := node fs @
                 [join [tab] [''DrugCentral:'' @ struct_id, drug_name, ''biolink:Drug''] @ [newline],
                  join [tab] [''UniProtKB:P12345'', gene, ''biolink:Gene''] @ [newline],
                  join [tab] [''UniProtKB:Q67890'', gene, ''biolink:Gene''] @ [newline]],
               edge := edge fs @
                 [join [tab] [''DrugCentral:'' @ struct_id, ''biolink:interacts_with'',
                    ''UniProtKB:P12345'', ''RO:0002436'', ''drug_central'', act_comment] @ [newline],
                  join [tab] [''DrugCentral:'' @ struct_id, ''biolink:interacts_with'',
                    ''UniProtKB:Q67890'', ''RO:0002436'', ''drug_central'', act_comment] @ [newline]]\<rparr>)"
    by (simp add: drug_curie_prefix_def gene_curie_prefix_def drug_node_type_def
        gene_node_type_def drug_gene_edge_label_def drug_gene_edge_relation_def source_name_def)
qed

text \<open>A row with the accession \<open>P12345|Q67890\<close>, written to empty files.\<close>

theorem accession_split_into_genes_witness:
  "[''ORGANISM'' \<mapsto> ''Homo sapiens'', ''ACCESSION'' \<mapsto> ''P12345|Q67890'', ''STRUCT_ID'' \<mapsto> ''99'', ''DRUG_NAME'' \<mapsto> ''Foo'', ''GENE'' \<mapsto> ''BAR'', ''ACT_COMMENT'' \<mapsto> ''inhibits''] ''ORGANISM'' = Some default_species
   \<and> get_item_by_priority [''ORGANISM'' \<mapsto> ''Homo sapiens'', ''ACCESSION'' \<mapsto> ''P12345|Q67890'', ''STRUCT_ID'' \<mapsto> ''99'', ''DRUG_NAME'' \<mapsto> ''Foo'', ''GENE'' \<mapsto> ''BAR'', ''ACT_COMMENT'' \<mapsto> ''inhibits''] [''ACCESSION''] = Inr ''P12345|Q67890''
   \<and> get_item_by_priority [''ORGANISM'' \<mapsto> ''Homo sapiens'', ''ACCESSION'' \<mapsto> ''P12345|Q67890'', ''STRUCT_ID'' \<mapsto> ''99'', ''DRUG_NAME'' \<mapsto> ''Foo'', ''GENE'' \<mapsto> ''BAR'', ''ACT_COMMENT'' \<mapsto> ''inhibits''] [''STRUCT_ID''] = Inr ''99''
   \<and> [''ORGANISM'' \<mapsto> ''Homo sapiens'', ''ACCESSION'' \<mapsto> ''P12345|Q67890'', ''STRUCT_ID'' \<mapsto> ''99'', ''DRUG_NAME'' \<mapsto> ''Foo'', ''GENE'' \<mapsto> ''BAR'', ''ACT_COMMENT'' \<mapsto> ''inhibits''] ''DRUG_NAME'' = Some ''Foo''
   \<and> [''ORGANISM'' \<mapsto> ''Homo sapiens'', ''ACCESSION'' \<mapsto> ''P12345|Q67890'', ''STRUCT_ID'' \<mapsto> ''99'', ''DRUG_NAME'' \<mapsto> ''Foo'', ''GENE'' \<mapsto> ''BAR'', ''ACT_COMMENT'' \<mapsto> ''inhibits''] ''GENE'' = Some ''BAR''
   \<and> [''ORGANISM'' \<mapsto> ''Homo sapiens'', ''ACCESSION'' \<mapsto> ''P12345|Q67890'', ''STRUCT_ID'' \<mapsto> ''99'', ''DRUG_NAME'' \<mapsto> ''Foo'', ''GENE'' \<mapsto> ''BAR'', ''ACT_COMMENT'' \<mapsto> ''inhibits''] ''ACT_COMMENT'' = Some ''inhibits''
   \<and> process_row default_species [''ORGANISM'' \<mapsto> ''Homo sapiens'', ''ACCESSION'' \<mapsto> ''P12345|Q67890'', ''STRUCT_ID'' \<mapsto> ''99'', ''DRUG_NAME'' \<mapsto> ''Foo'', ''GENE'' \<mapsto> ''BAR'', ''ACT_COMMENT'' \<mapsto> ''inhibits''] \<lparr>node = [], edge = []\<rparr> =
     (None, \<lparr>node = [''DrugCentral:99'' @ tab # ''Foo'' @ tab # ''biolink:Drug'' @ [newline],
       ''UniProtKB:P12345'' @ tab # ''BAR'' @ tab # ''biolink:Gene'' @ [newline],
       ''UniProtKB:Q67890'' @ tab # ''BAR'' @ tab # ''biolink:Gene'' @ [newline]],
     edge = [''DrugCentral:99'' @ tab # ''biolink:interacts_with'' @ tab # ''UniProtKB:P12345'' @ tab # ''RO:0002436'' @ tab # ''drug_central'' @ tab # ''inhibits'' @ [newline],
       ''DrugCentral:99'' @ tab # ''biolink:interacts_with'' @ tab # ''UniProtKB:Q67890'' @ tab # ''RO:0002436'' @ tab # ''drug_central'' @ tab # ''inhibits'' @ [newline]]\<rparr>)"
proof -
  have h1: "[''ORGANISM'' \<mapsto> ''Homo sapiens'', ''ACCESSION'' \<mapsto> ''P12345|Q67890'', ''STRUCT_ID'' \<mapsto> ''99'', ''DRUG_NAME'' \<mapsto> ''Foo'', ''GENE'' \<mapsto> ''BAR'', ''ACT_COMMENT'' \<mapsto> ''inhibits''] ''ORGANISM'' = Some default_species"
    by (simp add: default_species_def)
  have h2: "get_item_by_priority [''ORGANISM'' \<mapsto> ''Homo sapiens'', ''ACCESSION'' \<mapsto> ''P12345|Q67890'', ''STRUCT_ID'' \<mapsto> ''99'', ''DRUG_NAME'' \<mapsto> ''Foo'', ''GENE'' \<mapsto> ''BAR'', ''ACT_COMMENT'' \<mapsto> ''inhibits''] [''ACCESSION''] = Inr ''P12345|Q67890''"
    by (simp add: default_species_def)
  have h3: "get_item_by_priority [''ORGANISM'' \<mapsto> ''Homo sapiens'', ''ACCESSION'' \<mapsto> ''P12345|Q67890'', ''STRUCT_ID'' \<mapsto> ''99'', ''DRUG_NAME'' \<mapsto> ''Foo'', ''GENE'' \<mapsto> ''BAR'', ''ACT_COMMENT'' \<mapsto> ''inhibits''] [''STRUCT_ID''] = Inr ''99''"
    by (simp add: default_species_def)
  have h4: "[''ORGANISM'' \<mapsto> ''Homo sapiens'', ''ACCESSION'' \<mapsto> ''P12345|Q67890'', ''STRUCT_ID'' \<mapsto> ''99'', ''DRUG_NAME'' \<mapsto> ''Foo'', ''GENE'' \<mapsto> ''BAR'', ''ACT_COMMENT'' \<mapsto> ''inhibits''] ''DRUG_NAME'' = Some ''Foo''"
    by (simp add: default_species_def)
  have h5: "[''ORGANISM'' \<mapsto> ''Homo sapiens'', ''ACCESSION'' \<mapsto> ''P12345|Q67890'', ''STRUCT_ID'' \<mapsto> ''99'', ''DRUG_NAME'' \<mapsto> ''Foo'', ''GENE'' \<mapsto> ''BAR'', ''ACT_COMMENT'' \<mapsto> ''inhibits''] ''GENE'' = Some ''BAR''"
    by (simp add: default_species_def)
  have h6: "[''ORGANISM'' \<mapsto> ''Homo sapiens'', ''ACCESSION'' \<mapsto> ''P12345|Q67890'', ''STRUCT_ID'' \<mapsto> ''99'', ''DRUG_NAME'' \<mapsto> ''Foo'', ''GENE'' \<mapsto> ''BAR'', ''ACT_COMMENT'' \<mapsto> ''inhibits''] ''ACT_COMMENT'' = Some ''inhibits''"
    by (simp add: default_species_def)
  note t = accession_split_into_genes [OF h1 h2 h3 h4 h5 h6, where fs = "\<lparr>node = [], edge = []\<rparr>",
      THEN conjunct2, THEN mp, OF refl]
  have r: "process_row default_species [''ORGANISM'' \<mapsto> ''Homo sapiens'', ''ACCESSION'' \<mapsto> ''P12345|Q67890'', ''STRUCT_ID'' \<mapsto> ''99'', ''DRUG_NAME'' \<mapsto> ''Foo'', ''GENE'' \<mapsto> ''BAR'', ''ACT_COMMENT'' \<mapsto> ''inhibits''] \<lparr>node = [], edge = []\<rparr> =
     (None, \<lparr>node = [''DrugCentral:99'' @ tab # ''Foo'' @ tab # ''biolink:Drug'' @ [newline],
       ''UniProtKB:P12345'' @ tab # ''BAR'' @ tab # ''biolink:Gene'' @ [newline],
       ''UniProtKB:Q67890'' @ tab # ''BAR'' @ tab # ''biolink:Gene'' @ [newline]],
     edge = [''DrugCentral:99'' @ tab # ''biolink:interacts_with'' @ tab # ''UniProtKB:P12345'' @ tab # ''RO:0002436'' @ tab # ''drug_central'' @ tab # ''inhibits'' @ [newline],
       ''DrugCentral:99'' @ tab # ''biolink:interacts_with'' @ tab # ''UniProtKB:Q67890'' @ tab # ''RO:0002436'' @ tab # ''drug_central'' @ tab # ''inhibits'' @ [newline]]\<rparr>)"
    unfolding t by (simp add: tab_def newline_def)
  from h1 h2 h3 h4 h5 h6 r show ?thesis by blast
qed

subsection \<open>A whole run\<close>

text \<open>
  Claim C3. The input with the header \<open>STRUCT_ID, DRUG_NAME, GENE, ACCESSION, ORGANISM,
  ACT_COMMENT\<close> and the one row \<open>99, Foo, BAR, P00001, Homo sapiens, inhibits\<close> yields,
  after the two header lines, exactly the node lines \<open>DrugCentral:99 Foo biolink:Drug\<close> and
  \<open>UniProtKB:P00001 BAR biolink:Gene\<close> and the edge line \<open>DrugCentral:99
  biolink:interacts_with UniProtKB:P00001 RO:0002436 drug_central inhibits\<close>, the fields
  separated by tabs and every line ended by a newline; the run raises nothing.
\<close>

theorem end_to_end_example:
  "run ''Homo sapiens''
     (''STRUCT_ID'' @ tab # ''DRUG_NAME'' @ tab # ''GENE'' @ tab # ''ACCESSION'' @ tab # ''ORGANISM'' @ tab # ''ACT_COMMENT'' @ [newline] @
      ''99'' @ tab # ''Foo'' @ tab # ''BAR'' @ tab # ''P00001'' @ tab # ''Homo sapiens'' @ tab # ''inhibits'' @ [newline]) prior =
   (None,
    \<lparr>node = [''id'' @ tab # ''name'' @ tab # ''category'' @ [newline],
       ''DrugCentral:99'' @ tab # ''Foo'' @ tab # ''biolink:Drug'' @ [newline],
       ''UniProtKB:P00001'' @ tab # ''BAR'' @ tab # ''biolink:Gene'' @ [newline]],
     edge = [''subject'' @ tab # ''edge_label'' @ tab # ''object'' @ tab # ''relation'' @ tab # ''provided_by'' @ tab # ''comment'' @ [newline],
       ''DrugCentral:99'' @ tab # ''biolink:interacts_with'' @ tab # ''UniProtKB:P00001'' @ tab # ''RO:0002436'' @ tab # ''drug_central'' @ tab # ''inhibits'' @ [newline]]\<rparr>)"
  by (simp add: run_def files_reset parse_header_def parse_drug_central_line_def data_to_dict_def
      strip_def isspace_def remove_quotes_def dquote_def tab_def newline_def pipe_def
      process_row_def write_node_edge_item_def node_header_def edge_header_def
      drug_curie_prefix_def gene_curie_prefix_def drug_node_type_def gene_node_type_def
      drug_gene_edge_label_def drug_gene_edge_relation_def source_name_def)

subsection \<open>Rows without an accession\<close>

text \<open>
  Claim C4. A row of the target organism whose record has no \<open>ACCESSION\<close> entry is
  skipped: nothing is raised, nothing is written, and the loop goes on with the next line.
\<close>

theorem missing_accession_skips_row:
  assumes "parse_drug_central_line line header_items = Inr items_dict"
    and "items_dict ''ORGANISM'' = Some species"
    and "items_dict ''ACCESSION'' = None"
  shows "process_row species items_dict fs = (None, fs) \<and>
         process_lines species header_items (line # lines) fs =
           process_lines species header_items lines fs"
proof -
  from assms(3) have "get_item_by_priority items_dict [''ACCESSION''] = Inl ItemInDictNotFound"
    by simp
  with assms(2) have skip: "process_row species items_dict fs = (None, fs)"
    by (simp add: process_row_def del: get_item_by_priority.simps)
  from process_lines_step [OF assms(1) skip] skip show ?thesis
    by simp
qed

text \<open>A table without an \<open>ACCESSION\<close> column.\<close>

theorem missing_accession_skips_row_witness:
  "parse_drug_central_line (''Homo sapiens'' @ tab # ''99'' @ [newline]) [''ORGANISM'', ''STRUCT_ID'']
     = Inr [''ORGANISM'' \<mapsto> ''Homo sapiens'', ''STRUCT_ID'' \<mapsto> ''99'']
   \<and> [''ORGANISM'' \<mapsto> ''Homo sapiens'', ''STRUCT_ID'' \<mapsto> ''99''] ''ORGANISM'' = Some default_species
   \<and> [''ORGANISM'' \<mapsto> ''Homo sapiens'', ''STRUCT_ID'' \<mapsto> ''99''] ''ACCESSION'' = None
   \<and> process_lines default_species [''ORGANISM'', ''STRUCT_ID'']
        [''Homo sapiens'' @ tab # ''99'' @ [newline],
         ''Homo sapiens'' @ tab # ''99'' @ [newline]] \<lparr>node = [], edge = []\<rparr>
      = (None, \<lparr>node = [], edge = []\<rparr>)"
proof -
  have h1: "parse_drug_central_line (''Homo sapiens'' @ tab # ''99'' @ [newline]) [''ORGANISM'', ''STRUCT_ID'']
     = Inr [''ORGANISM'' \<mapsto> ''Homo sapiens'', ''STRUCT_ID'' \<mapsto> ''99'']"
    by (simp add: parse_drug_central_line_def data_to_dict_def strip_def isspace_def tab_def
        newline_def remove_quotes_def dquote_def)
  have h2: "[''ORGANISM'' \<mapsto> ''Homo sapiens'', ''STRUCT_ID'' \<mapsto> ''99''] ''ORGANISM'' = Some default_species"
    by (simp add: default_species_def)
  have h3: "[''ORGANISM'' \<mapsto> ''Homo sapiens'', ''STRUCT_ID'' \<mapsto> ''99''] ''ACCESSION'' = None"
    by (simp add: default_species_def)
  note t1 = missing_accession_skips_row [OF h1 h2 h3,
      where fs = "\<lparr>node = [], edge = []\<rparr>" and lines = "[''Homo sapiens'' @ tab # ''99'' @ [newline]]",
      THEN conjunct2]
  note t2 = missing_accession_skips_row [OF h1 h2 h3,
      where fs = "\<lparr>node = [], edge = []\<rparr>" and lines = "[]", THEN conjunct2]
  have r: "process_lines default_species [''ORGANISM'', ''STRUCT_ID'']
        [''Homo sapiens'' @ tab # ''99'' @ [newline],
         ''Homo sapiens'' @ tab # ''99'' @ [newline]] \<lparr>node = [], edge = []\<rparr>
      = (None, \<lparr>node = [], edge = []\<rparr>)"
    unfolding t1 t2 by simp
  from h1 h2 h3 r show ?thesis by blast
qed

subsection \<open>Rows without a drug identifier\<close>

text \<open>
  Claim C5. A row of the target organism whose \<open>ACCESSION\<close> lookup succeeds and whose record
  has no \<open>STRUCT_ID\<close> entry raises \<open>ItemInDictNotFound\<close>. The lookup of line 73 is outside
  the \<open>try\<close>, so the exception leaves the loop: the lines after it are not read and nothing
  has been written for the row.
\<close>

theorem missing_struct_id_aborts_run:
  assumes "parse_drug_central_line line header_items = Inr items_dict"
    and "items_dict ''ORGANISM'' = Some species"
    and "get_item_by_priority items_dict [''ACCESSION''] = Inr accession"
    and "items_dict ''STRUCT_ID'' = None"
  shows "process_row species items_dict fs = (Some ItemInDictNotFound, fs) \<and>
         process_lines species header_items (line # lines) fs = (Some ItemInDictNotFound, fs)"
proof -
  from assms(4) have "get_item_by_priority items_dict [''STRUCT_ID''] = Inl ItemInDictNotFound"
    by simp
  with assms(2,3) have r: "process_row species items_dict fs = (Some ItemInDictNotFound, fs)"
    by (simp add: process_row_def Let_def del: get_item_by_priority.simps)
  from process_lines_raise [OF assms(1) r] r show ?thesis
    by simp
qed

text \<open>A table without a \<open>STRUCT_ID\<close> column; the second line is never reached.\<close>

theorem missing_struct_id_aborts_run_witness:
  "parse_drug_central_line (''Homo sapiens'' @ tab # ''P00001'' @ [newline]) [''ORGANISM'', ''ACCESSION'']
     = Inr [''ORGANISM'' \<mapsto> ''Homo sapiens'', ''ACCESSION'' \<mapsto> ''P00001'']
   \<and> [''ORGANISM'' \<mapsto> ''Homo sapiens'', ''ACCESSION'' \<mapsto> ''P00001''] ''ORGANISM'' = Some default_species
   \<and> get_item_by_priority [''ORGANISM'' \<mapsto> ''Homo sapiens'', ''ACCESSION'' \<mapsto> ''P00001''] [''ACCESSION''] = Inr ''P00001''
   \<and> [''ORGANISM'' \<mapsto> ''Homo sapiens'', ''ACCESSION'' \<mapsto> ''P00001''] ''STRUCT_ID'' = None
   \<and> process_lines default_species [''ORGANISM'', ''ACCESSION'']
        [''Homo sapiens'' @ tab # ''P00001'' @ [newline],
         ''Homo sapiens'' @ tab # ''P00001'' @ [newline]] \<lparr>node = [], edge = []\<rparr>
      = (Some ItemInDictNotFound, \<lparr>node = [], edge = []\<rparr>)"
proof -
  have h1: "parse_drug_central_line (''Homo sapiens'' @ tab # ''P00001'' @ [newline]) [''ORGANISM'', ''ACCESSION'']
     = Inr [''ORGANISM'' \<mapsto> ''Homo sapiens'', ''ACCESSION'' \<mapsto> ''P00001'']"
    by (simp add: parse_drug_central_line_def data_to_dict_def strip_def isspace_def tab_def
        newline_def remove_quotes_def dquote_def)
  have h2: "[''ORGANISM'' \<mapsto> ''Homo sapiens'', ''ACCESSION'' \<mapsto> ''P00001''] ''ORGANISM'' = Some default_species"
    by (simp add: default_species_def)
  have h3: "get_item_by_priority [''ORGANISM'' \<mapsto> ''Homo sapiens'', ''ACCESSION'' \<mapsto> ''P00001''] [''ACCESSION''] = Inr ''P00001''"
    by (simp add: default_species_def)
  have h4: "[''ORGANISM'' \<mapsto> ''Homo sapiens'', ''ACCESSION'' \<mapsto> ''P00001''] ''STRUCT_ID'' = None"
    by (simp add: default_species_def)
  note t = missing_struct_id_aborts_run [OF h1 h2 h3 h4,
      where lines = "[''Homo sapiens'' @ tab # ''P00001'' @ [newline]]" and fs = "\<lparr>node = [], edge = []\<rparr>",
      THEN conjunct2]
  from h1 h2 h3 h4 t show ?thesis by blast
qed

subsection \<open>Rows of the wrong width\<close>

text \<open>
  Claim C6. A data line whose number of fields, after stripping the line and cutting it at
  the tabs, differs from the number of header names makes the construction of the record
  raise the data-shape error, and the error leaves the loop. Removing the quotes does not
  change the number of fields.
\<close>

theorem field_count_mismatch_aborts_run:
  assumes "length (split_on tab (strip line)) \<noteq> length header_items"
  shows "parse_drug_central_line line header_items = Inl DataShapeError \<and>
         process_lines species header_items (line # lines) fs = (Some DataShapeError, fs)"
  using assms by (simp add: parse_drug_central_line_def data_to_dict_def)

text \<open>Two fields under three header names.\<close>

theorem field_count_mismatch_aborts_run_witness:
  "length (split_on tab (strip (''Homo sapiens'' @ tab # ''P00001'' @ [newline]))) \<noteq> length [''ORGANISM'', ''ACCESSION'', ''STRUCT_ID'']
   \<and> parse_drug_central_line (''Homo sapiens'' @ tab # ''P00001'' @ [newline]) [''ORGANISM'', ''ACCESSION'', ''STRUCT_ID''] = Inl DataShapeError
   \<and> process_lines default_species [''ORGANISM'', ''ACCESSION'', ''STRUCT_ID'']
        [''Homo sapiens'' @ tab # ''P00001'' @ [newline],
         ''Homo sapiens'' @ tab # ''P00001'' @ [newline]] \<lparr>node = [], edge = []\<rparr>
      = (Some DataShapeError, \<lparr>node = [], edge = []\<rparr>)"
proof -
  have h: "length (split_on tab (strip (''Homo sapiens'' @ tab # ''P00001'' @ [newline]))) \<noteq> length [''ORGANISM'', ''ACCESSION'', ''STRUCT_ID'']"
    by (simp add: strip_def isspace_def tab_def newline_def)
  note t = field_count_mismatch_aborts_run [OF h,
      where species = default_species and lines = "[''Homo sapiens'' @ tab # ''P00001'' @ [newline]]" and fs = "\<lparr>node = [], edge = []\<rparr>"]
  from h t show ?thesis by blast
qed

subsection \<open>Which rows contribute\<close>

text \<open>
  Claim C7. A row contributes output only if its \<open>ORGANISM\<close> entry equals the target
  organism and its \<open>ACCESSION\<close> entry is there and is not empty. A row that fails either
  condition leaves the files as they were and the loop goes on.
\<close>

theorem only_matching_rows_with_accession_emit:
  assumes "parse_drug_central_line line header_items = Inr items_dict"
    and "\<not> (items_dict ''ORGANISM'' = Some species \<and>
             (\<exists>v. items_dict ''ACCESSION'' = Some v \<and> v \<noteq> []))"
  shows "process_row species items_dict fs = (None, fs) \<and>
         process_lines species header_items (line # lines) fs =
           process_lines species header_items lines fs"
proof -
  have skip: "process_row species items_dict fs = (None, fs)"
  proof (cases "items_dict ''ORGANISM'' = Some species")
    case False
    then show ?thesis by (simp add: process_row_def)
  next
    case True
    with assms(2) have "get_item_by_priority items_dict [''ACCESSION''] = Inl ItemInDictNotFound"
      by (auto simp: get_item_single split: option.splits)
    with True show ?thesis
      by (simp add: process_row_def del: get_item_by_priority.simps)
  qed
  from process_lines_step [OF assms(1) skip] skip show ?thesis
    by simp
qed

text \<open>A row of the target organism whose \<open>ACCESSION\<close> field is empty.\<close>

theorem only_matching_rows_with_accession_emit_witness:
  "parse_drug_central_line (''Homo sapiens'' @ tab # '''' @ tab # ''99'' @ [newline]) [''ORGANISM'', ''ACCESSION'', ''STRUCT_ID'']
     = Inr [''ORGANISM'' \<mapsto> ''Homo sapiens'', ''ACCESSION'' \<mapsto> '''', ''STRUCT_ID'' \<mapsto> ''99'']
   \<and> \<not> ([''ORGANISM'' \<mapsto> ''Homo sapiens'', ''ACCESSION'' \<mapsto> '''', ''STRUCT_ID'' \<mapsto> ''99''] ''ORGANISM'' = Some default_species \<and>
        (\<exists>v. [''ORGANISM'' \<mapsto> ''Homo sapiens'', ''ACCESSION'' \<mapsto> '''', ''STRUCT_ID'' \<mapsto> ''99''] ''ACCESSION'' = Some v \<and> v \<noteq> []))
   \<and> process_lines default_species [''ORGANISM'', ''ACCESSION'', ''STRUCT_ID'']
        [''Homo sapiens'' @ tab # '''' @ tab # ''99'' @ [newline],
         ''Homo sapiens'' @ tab # '''' @ tab # ''99'' @ [newline]] \<lparr>node = [], edge = []\<rparr>
      = (None, \<lparr>node = [], edge = []\<rparr>)"
proof -
  have h1: "parse_drug_central_line (''Homo sapiens'' @ tab # '''' @ tab # ''99'' @ [newline]) [''ORGANISM'', ''ACCESSION'', ''STRUCT_ID'']
     = Inr [''ORGANISM'' \<mapsto> ''Homo sapiens'', ''ACCESSION'' \<mapsto> '''', ''STRUCT_ID'' \<mapsto> ''99'']"
    by (simp add: parse_drug_central_line_def data_to_dict_def strip_def isspace_def tab_def
        newline_def remove_quotes_def dquote_def)
  have h2: "\<not> ([''ORGANISM'' \<mapsto> ''Homo sapiens'', ''ACCESSION'' \<mapsto> '''', ''STRUCT_ID'' \<mapsto> ''99''] ''ORGANISM'' = Some default_species \<and>
        (\<exists>v. [''ORGANISM'' \<mapsto> ''Homo sapiens'', ''ACCESSION'' \<mapsto> '''', ''STRUCT_ID'' \<mapsto> ''99''] ''ACCESSION'' = Some v \<and> v \<noteq> []))"
    by (simp add: default_species_def)
  note t1 = only_matching_rows_with_accession_emit [OF h1 h2,
      where fs = "\<lparr>node = [], edge = []\<rparr>" and lines = "[''Homo sapiens'' @ tab # '''' @ tab # ''99'' @ [newline]]",
      THEN conjunct2]
  note t2 = only_matching_rows_with_accession_emit [OF h1 h2,
      where fs = "\<lparr>node = [], edge = []\<rparr>" and lines = "[]", THEN conjunct2]
  have r: "process_lines default_species [''ORGANISM'', ''ACCESSION'', ''STRUCT_ID'']
        [''Homo sapiens'' @ tab # '''' @ tab # ''99'' @ [newline],
         ''Homo sapiens'' @ tab # '''' @ tab # ''99'' @ [newline]] \<lparr>node = [], edge = []\<rparr>
      = (None, \<lparr>node = [], edge = []\<rparr>)"
    unfolding t1 t2 by simp
  from h1 h2 r show ?thesis by blast
qed

subsection \<open>Repeated runs\<close>

text \<open>
  Claim C9. The result of a run, that is the exception it ends with if any and the bytes
  of both output files, is determined by the species and the input text. What the output
  files held before does not matter, because both are opened with mode \<open>w\<close>; so a second
  run over the same input, started on the files the first run left, ends the same way
  and leaves the same files.
\<close>

theorem run_ignores_prior_output:
  "run species interactions prior = run species interactions prior' \<and>
   run species interactions (snd (run species interactions prior)) =
     run species interactions prior"
  by (simp add: run_def files_reset)

subsection \<open>Rows without a name, a gene or a comment\<close>

text \<open>
  Claim C10. Take a row of the target organism whose \<open>ACCESSION\<close> lookup succeeds. If its
  record has no \<open>DRUG_NAME\<close>, no \<open>GENE\<close> or no \<open>ACT_COMMENT\<close> entry, the run ends with a
  lookup error; the row is not skipped. With the drug identifier resolved: without
  \<open>DRUG_NAME\<close> the \<open>KeyError\<close> comes before any write; without \<open>GENE\<close> the drug line of the
  row is already in the node file; without \<open>ACT_COMMENT\<close> the drug line and the first gene
  line are. The edge file is untouched in all three cases.
\<close>

theorem missing_key_aborts_after_partial_output:
  assumes "parse_drug_central_line line header_items = Inr items_dict"
    and "items_dict ''ORGANISM'' = Some species"
    and "get_item_by_priority items_dict [''ACCESSION''] = Inr accession"
  shows
    "(items_dict ''DRUG_NAME'' = None \<or> items_dict ''GENE'' = None \<or>
        items_dict ''ACT_COMMENT'' = None \<longrightarrow>
       (\<exists>e fs'. process_lines species header_items (line # lines) fs = (Some e, fs') \<and>
          e \<in> {ItemInDictNotFound, KeyError ''DRUG_NAME'', KeyError ''GENE'',
               KeyError ''ACT_COMMENT''}))
     \<and> (get_item_by_priority items_dict [''STRUCT_ID''] = Inr struct_id \<and>
        items_dict ''DRUG_NAME'' = None \<longrightarrow>
          process_lines species header_items (line # lines) fs =
            (Some (KeyError ''DRUG_NAME''), fs))
     \<and> (get_item_by_priority items_dict [''STRUCT_ID''] = Inr struct_id \<and>
        items_dict ''DRUG_NAME'' = Some drug_name \<and> items_dict ''GENE'' = None \<longrightarrow>
          process_lines species header_items (line # lines) fs =
            (Some (KeyError ''GENE''),
             fs\<lparr>node := node fs @
               [join [tab] [drug_curie_prefix @ struct_id, drug_name, drug_node_type]
                  @ [newline]]\<rparr>))
     \<and> (get_item_by_priority items_dict [''STRUCT_ID''] = Inr struct_id \<and>
        items_dict ''DRUG_NAME'' = Some drug_name \<and> items_dict ''GENE'' = Some gene \<and>
        items_dict ''ACT_COMMENT'' = None \<longrightarrow>
          process_lines species header_items (line # lines) fs =
            (Some (KeyError ''ACT_COMMENT''),
             fs\<lparr>node := node fs @
               [join [tab] [drug_curie_prefix @ struct_id, drug_name, drug_node_type]
                  @ [newline],
                join [tab] [gene_curie_prefix @ hd (split_on pipe accession), gene,
                  gene_node_type] @ [newline]]\<rparr>))"
proof -
  note org = assms(2) and acc = assms(3)
  note raise = process_lines_raise [OF assms(1)]
  have drug: "process_lines species header_items (line # lines) fs =
      (Some (KeyError ''DRUG_NAME''), fs)"
    if "get_item_by_priority items_dict [''STRUCT_ID''] = Inr struct_id"
      and "items_dict ''DRUG_NAME'' = None" for struct_id
    by (rule raise [OF process_row_missing_drug_name [OF org acc that]])
  have gene: "process_lines species header_items (line # lines) fs =
      (Some (KeyError ''GENE''),
       fs\<lparr>node := node fs @
         [join [tab] [drug_curie_prefix @ struct_id, drug_name, drug_node_type] @ [newline]]\<rparr>)"
    if "get_item_by_priority items_dict [''STRUCT_ID''] = Inr struct_id"
      and "items_dict ''DRUG_NAME'' = Some drug_name"
      and "items_dict ''GENE'' = None" for struct_id drug_name
    by (rule raise)
      (simp add: process_row_to_gene_loop [OF org acc that(1,2)]
        gene_loop_missing_gene that(3) split_on_not_Nil)
  have comment: "process_lines species header_items (line # lines) fs =
      (Some (KeyError ''ACT_COMMENT''),
       fs\<lparr>node := node fs @
         [join [tab] [drug_curie_prefix @ struct_id, drug_name, drug_node_type] @ [newline],
          join [tab] [gene_curie_prefix @ hd (split_on pipe accession), gene, gene_node_type]
            @ [newline]]\<rparr>)"
    if "get_item_by_priority items_dict [''STRUCT_ID''] = Inr struct_id"
      and "items_dict ''DRUG_NAME'' = Some drug_name"
      and "items_dict ''GENE'' = Some gene"
      and "items_dict ''ACT_COMMENT'' = None" for struct_id drug_name gene
    by (rule raise)
      (simp add: process_row_to_gene_loop [OF org acc that(1,2)]
        gene_loop_missing_comment that(3,4) split_on_not_Nil)
  have abort: "\<exists>e fs'. process_lines species header_items (line # lines) fs = (Some e, fs') \<and>
          e \<in> {ItemInDictNotFound, KeyError ''DRUG_NAME'', KeyError ''GENE'',
               KeyError ''ACT_COMMENT''}"
    if miss: "items_dict ''DRUG_NAME'' = None \<or> items_dict ''GENE'' = None \<or>
        items_dict ''ACT_COMMENT'' = None"
  proof (cases "get_item_by_priority items_dict [''STRUCT_ID'']")
    case (Inl e)
    from raise [OF process_row_struct_id_error [OF org acc Inl]] show ?thesis
      by blast
  next
    case (Inr struct_id)
    show ?thesis
    proof (cases "items_dict ''DRUG_NAME''")
      case None
      from drug [OF Inr None] show ?thesis by blast
    next
      case (Some drug_name)
      note dn = this
      show ?thesis
      proof (cases "items_dict ''GENE''")
        case None
        from gene [OF Inr dn None] show ?thesis by blast
      next
        case (Some g)
        with miss dn have "items_dict ''ACT_COMMENT'' = None" by simp
        from comment [OF Inr dn Some this] show ?thesis by blast
      qed
    qed
  qed
  from drug gene comment abort show ?thesis
    by blast
qed

text \<open>Three tables, each lacking one of the columns \<open>GENE\<close>, \<open>ACT_COMMENT\<close>, \<open>DRUG_NAME\<close>.\<close>

theorem missing_key_aborts_after_partial_output_witness:
  "parse_drug_central_line (''Homo sapiens'' @ tab # ''P00001|P00002'' @ tab # ''99'' @ tab # ''Foo'' @ tab # ''inhibits'' @ [newline]) [''ORGANISM'', ''ACCESSION'', ''STRUCT_ID'', ''DRUG_NAME'', ''ACT_COMMENT'']
     = Inr [''ORGANISM'' \<mapsto> ''Homo sapiens'', ''ACCESSION'' \<mapsto> ''P00001|P00002'', ''STRUCT_ID'' \<mapsto> ''99'', ''DRUG_NAME'' \<mapsto> ''Foo'', ''ACT_COMMENT'' \<mapsto> ''inhibits'']
   \<and> process_lines default_species [''ORGANISM'', ''ACCESSION'', ''STRUCT_ID'', ''DRUG_NAME'', ''ACT_COMMENT'']
        [''Homo sapiens'' @ tab # ''P00001|P00002'' @ tab # ''99'' @ tab # ''Foo'' @ tab # ''inhibits'' @ [newline],
         ''Homo sapiens'' @ tab # ''P00001|P00002'' @ tab # ''99'' @ tab # ''Foo'' @ tab # ''inhibits'' @ [newline]] \<lparr>node = [], edge = []\<rparr>
      = (Some (KeyError ''GENE''),
          \<lparr>node = [''DrugCentral:99'' @ tab # ''Foo'' @ tab # ''biolink:Drug'' @ [newline]], edge = []\<rparr>)
   \<and> parse_drug_central_line (''Homo sapiens'' @ tab # ''P00001|P00002'' @ tab # ''99'' @ tab # ''Foo'' @ tab # ''BAR'' @ [newline]) [''ORGANISM'', ''ACCESSION'', ''STRUCT_ID'', ''DRUG_NAME'', ''GENE'']
     = Inr [''ORGANISM'' \<mapsto> ''Homo sapiens'', ''ACCESSION'' \<mapsto> ''P00001|P00002'', ''STRUCT_ID'' \<mapsto> ''99'', ''DRUG_NAME'' \<mapsto> ''Foo'', ''GENE'' \<mapsto> ''BAR'']
   \<and> process_lines default_species [''ORGANISM'', ''ACCESSION'', ''STRUCT_ID'', ''DRUG_NAME'', ''GENE'']
        [''Homo sapiens'' @ tab # ''P00001|P00002'' @ tab # ''99'' @ tab # ''Foo'' @ tab # ''BAR'' @ [newline],
         ''Homo sapiens'' @ tab # ''P00001|P00002'' @ tab # ''99'' @ tab # ''Foo'' @ tab # ''BAR'' @ [newline]] \<lparr>node = [], edge = []\<rparr>
      = (Some (KeyError ''ACT_COMMENT''),
          \<lparr>node = [''DrugCentral:99'' @ tab # ''Foo'' @ tab # ''biolink:Drug'' @ [newline],
             ''UniProtKB:P00001'' @ tab # ''BAR'' @ tab # ''biolink:Gene'' @ [newline]], edge = []\<rparr>)
   \<and> parse_drug_central_line (''Homo sapiens'' @ tab # ''P00001|P00002'' @ tab # ''99'' @ tab # ''BAR'' @ tab # ''inhibits'' @ [newline]) [''ORGANISM'', ''ACCESSION'', ''STRUCT_ID'', ''GENE'', ''ACT_COMMENT'']
     = Inr [''ORGANISM'' \<mapsto> ''Homo sapiens'', ''ACCESSION'' \<mapsto> ''P00001|P00002'', ''STRUCT_ID'' \<mapsto> ''99'', ''GENE'' \<mapsto> ''BAR'', ''ACT_COMMENT'' \<mapsto> ''inhibits'']
   \<and> process_lines default_species [''ORGANISM'', ''ACCESSION'', ''STRUCT_ID'', ''GENE'', ''ACT_COMMENT'']
        [''Homo sapiens'' @ tab # ''P00001|P00002'' @ tab # ''99'' @ tab # ''BAR'' @ tab # ''inhibits'' @ [newline],
         ''Homo sapiens'' @ tab # ''P00001|P00002'' @ tab # ''99'' @ tab # ''BAR'' @ tab # ''inhibits'' @ [newline]] \<lparr>node = [], edge = []\<rparr>
      = (Some (KeyError ''DRUG_NAME''), \<lparr>node = [], edge = []\<rparr>)"
proof -
  have pg: "parse_drug_central_line (''Homo sapiens'' @ tab # ''P00001|P00002'' @ tab # ''99'' @ tab # ''Foo'' @ tab # ''inhibits'' @ [newline]) [''ORGANISM'', ''ACCESSION'', ''STRUCT_ID'', ''DRUG_NAME'', ''ACT_COMMENT'']
     = Inr [''ORGANISM'' \<mapsto> ''Homo sapiens'', ''ACCESSION'' \<mapsto> ''P00001|P00002'', ''STRUCT_ID'' \<mapsto> ''99'', ''DRUG_NAME'' \<mapsto> ''Foo'', ''ACT_COMMENT'' \<mapsto> ''inhibits'']"
    by (simp add: parse_drug_central_line_def data_to_dict_def strip_def isspace_def tab_def
        newline_def remove_quotes_def dquote_def)
  have og: "[''ORGANISM'' \<mapsto> ''Homo sapiens'', ''ACCESSION'' \<mapsto> ''P00001|P00002'', ''STRUCT_ID'' \<mapsto> ''99'', ''DRUG_NAME'' \<mapsto> ''Foo'', ''ACT_COMMENT'' \<mapsto> ''inhibits''] ''ORGANISM'' = Some default_species"
    by (simp add: default_species_def)
  have ag: "get_item_by_priority [''ORGANISM'' \<mapsto> ''Homo sapiens'', ''ACCESSION'' \<mapsto> ''P00001|P00002'', ''STRUCT_ID'' \<mapsto> ''99'', ''DRUG_NAME'' \<mapsto> ''Foo'', ''ACT_COMMENT'' \<mapsto> ''inhibits''] [''ACCESSION''] = Inr ''P00001|P00002''"
    by simp
  note tg = missing_key_aborts_after_partial_output [OF pg og ag,
      where lines = "[''Homo sapiens'' @ tab # ''P00001|P00002'' @ tab # ''99'' @ tab # ''Foo'' @ tab # ''inhibits'' @ [newline]]" and fs = "\<lparr>node = [], edge = []\<rparr>"
        and struct_id = "''99''" and drug_name = "''Foo''" and gene = "''BAR''",
      THEN conjunct2, THEN conjunct2, THEN conjunct1]
  have rg: "process_lines default_species [''ORGANISM'', ''ACCESSION'', ''STRUCT_ID'', ''DRUG_NAME'', ''ACT_COMMENT'']
        [''Homo sapiens'' @ tab # ''P00001|P00002'' @ tab # ''99'' @ tab # ''Foo'' @ tab # ''inhibits'' @ [newline],
         ''Homo sapiens'' @ tab # ''P00001|P00002'' @ tab # ''99'' @ tab # ''Foo'' @ tab # ''inhibits'' @ [newline]] \<lparr>node = [], edge = []\<rparr>
      = (Some (KeyError ''GENE''),
          \<lparr>node = [''DrugCentral:99'' @ tab # ''Foo'' @ tab # ''biolink:Drug'' @ [newline]], edge = []\<rparr>)"
    using tg by (simp add: drug_curie_prefix_def gene_curie_prefix_def drug_node_type_def
        gene_node_type_def pipe_def tab_def newline_def)
  have pc: "parse_drug_central_line (''Homo sapiens'' @ tab # ''P00001|P00002'' @ tab # ''99'' @ tab # ''Foo'' @ tab # ''BAR'' @ [newline]) [''ORGANISM'', ''ACCESSION'', ''STRUCT_ID'', ''DRUG_NAME'', ''GENE'']
     = Inr [''ORGANISM'' \<mapsto> ''Homo sapiens'', ''ACCESSION'' \<mapsto> ''P00001|P00002'', ''STRUCT_ID'' \<mapsto> ''99'', ''DRUG_NAME'' \<mapsto> ''Foo'', ''GENE'' \<mapsto> ''BAR'']"
    by (simp add: parse_drug_central_line_def data_to_dict_def strip_def isspace_def tab_def
        newline_def remove_quotes_def dquote_def)
  have oc: "[''ORGANISM'' \<mapsto> ''Homo sapiens'', ''ACCESSION'' \<mapsto> ''P00001|P00002'', ''STRUCT_ID'' \<mapsto> ''99'', ''DRUG_NAME'' \<mapsto> ''Foo'', ''GENE'' \<mapsto> ''BAR''] ''ORGANISM'' = Some default_species"
    by (simp add: default_species_def)
  have ac: "get_item_by_priority [''ORGANISM'' \<mapsto> ''Homo sapiens'', ''ACCESSION'' \<mapsto> ''P00001|P00002'', ''STRUCT_ID'' \<mapsto> ''99'', ''DRUG_NAME'' \<mapsto> ''Foo'', ''GENE'' \<mapsto> ''BAR''] [''ACCESSION''] = Inr ''P00001|P00002''"
    by simp
  note tc = missing_key_aborts_after_partial_output [OF pc oc ac,
      where lines = "[''Homo sapiens'' @ tab # ''P00001|P00002'' @ tab # ''99'' @ tab # ''Foo'' @ tab # ''BAR'' @ [newline]]" and fs = "\<lparr>node = [], edge = []\<rparr>"
        and struct_id = "''99''" and drug_name = "''Foo''" and gene = "''BAR''",
      THEN conjunct2, THEN conjunct2, THEN conjunct2]
  have rc: "process_lines default_species [''ORGANISM'', ''ACCESSION'', ''STRUCT_ID'', ''DRUG_NAME'', ''GENE'']
        [''Homo sapiens'' @ tab # ''P00001|P00002'' @ tab # ''99'' @ tab # ''Foo'' @ tab # ''BAR'' @ [newline],
         ''Homo sapiens'' @ tab # ''P00001|P00002'' @ tab # ''99'' @ tab # ''Foo'' @ tab # ''BAR'' @ [newline]] \<lparr>node = [], edge = []\<rparr>
      = (Some (KeyError ''ACT_COMMENT''),
          \<lparr>node = [''DrugCentral:99'' @ tab # ''Foo'' @ tab # ''biolink:Drug'' @ [newline],
             ''UniProtKB:P00001'' @ tab # ''BAR'' @ tab # ''biolink:Gene'' @ [newline]], edge = []\<rparr>)"
    using tc by (simp add: drug_curie_prefix_def gene_curie_prefix_def drug_node_type_def
        gene_node_type_def pipe_def tab_def newline_def)
  have pd: "parse_drug_central_line (''Homo sapiens'' @ tab # ''P00001|P00002'' @ tab # ''99'' @ tab # ''BAR'' @ tab # ''inhibits'' @ [newline]) [''ORGANISM'', ''ACCESSION'', ''STRUCT_ID'', ''GENE'', ''ACT_COMMENT'']
     = Inr [''ORGANISM'' \<mapsto> ''Homo sapiens'', ''ACCESSION'' \<mapsto> ''P00001|P00002'', ''STRUCT_ID'' \<mapsto> ''99'', ''GENE'' \<mapsto> ''BAR'', ''ACT_COMMENT'' \<mapsto> ''inhibits'']"
    by (simp add: parse_drug_central_line_def data_to_dict_def strip_def isspace_def tab_def
        newline_def remove_quotes_def dquote_def)
  have od: "[''ORGANISM'' \<mapsto> ''Homo sapiens'', ''ACCESSION'' \<mapsto> ''P00001|P00002'', ''STRUCT_ID'' \<mapsto> ''99'', ''GENE'' \<mapsto> ''BAR'', ''ACT_COMMENT'' \<mapsto> ''inhibits''] ''ORGANISM'' = Some default_species"
    by (simp add: default_species_def)
  have ad: "get_item_by_priority [''ORGANISM'' \<mapsto> ''Homo sapiens'', ''ACCESSION'' \<mapsto> ''P00001|P00002'', ''STRUCT_ID'' \<mapsto> ''99'', ''GENE'' \<mapsto> ''BAR'', ''ACT_COMMENT'' \<mapsto> ''inhibits''] [''ACCESSION''] = Inr ''P00001|P00002''"
    by simp
  note td = missing_key_aborts_after_partial_output [OF pd od ad,
      where lines = "[''Homo sapiens'' @ tab # ''P00001|P00002'' @ tab # ''99'' @ tab # ''BAR'' @ tab # ''inhibits'' @ [newline]]" and fs = "\<lparr>node = [], edge = []\<rparr>"
        and struct_id = "''99''" and drug_name = "''Foo''" and gene = "''BAR''",
      THEN conjunct2, THEN conjunct1]
  have rd: "process_lines default_species [''ORGANISM'', ''ACCESSION'', ''STRUCT_ID'', ''GENE'', ''ACT_COMMENT'']
        [''Homo sapiens'' @ tab # ''P00001|P00002'' @ tab # ''99'' @ tab # ''BAR'' @ tab # ''inhibits'' @ [newline],
         ''Homo sapiens'' @ tab # ''P00001|P00002'' @ tab # ''99'' @ tab # ''BAR'' @ tab # ''inhibits'' @ [newline]] \<lparr>node = [], edge = []\<rparr>
      = (Some (KeyError ''DRUG_NAME''), \<lparr>node = [], edge = []\<rparr>)"
    using td by (simp add: drug_curie_prefix_def gene_curie_prefix_def drug_node_type_def
        gene_node_type_def pipe_def tab_def newline_def)
  from pg rg pc rc pd rd show ?thesis by blast
qed

subsection \<open>The header lines\<close>

lemma file_lines_line:
  "newline \<notin> set b \<Longrightarrow> file_lines (b @ newline # r) = (b @ [newline]) # file_lines r"
  by (induction b) auto

lemma file_lines_concat:
  assumes "\<forall>w \<in> set ws. w \<noteq> [] \<and> last w = newline \<and> newline \<notin> set (butlast w)"
  shows "file_lines (concat ws) = ws"
  using assms
proof (induction ws)
  case Nil
  then show ?case by simp
next
  case (Cons w ws)
  define b where "b = butlast w"
  from Cons.prems have "w \<noteq> []" "last w = newline" and b: "newline \<notin> set b"
    by (simp_all add: b_def)
  then have w: "w = b @ [newline]"
    unfolding b_def by (metis append_butlast_last_id)
  from Cons have ih: "file_lines (concat ws) = ws"
    by simp
  have "file_lines (concat (w # ws)) = file_lines (b @ newline # concat ws)"
    by (simp add: w)
  also have "\<dots> = (b @ [newline]) # file_lines (concat ws)"
    by (rule file_lines_line [OF b])
  finally show ?case
    by (simp add: ih w)
qed

lemma file_lines_butlast:
  "l \<in> set (file_lines t) \<Longrightarrow> newline \<notin> set (butlast l)"
proof (induction t arbitrary: l)
  case Nil
  then show ?case by simp
next
  case (Cons x t)
  then show ?case
    by (auto split: if_splits list.splits)
qed

lemma butlast_dropWhile_subset: "set (butlast (dropWhile P l)) \<subseteq> set (butlast l)"
  by (induction l) auto

lemma strip_no_newline:
  assumes "newline \<notin> set (butlast l)"
  shows "newline \<notin> set (strip l)"
proof -
  define x where "x = dropWhile isspace l"
  from assms butlast_dropWhile_subset [of isspace l] have b: "newline \<notin> set (butlast x)"
    unfolding x_def by blast
  have sp: "isspace newline"
    by (simp add: isspace_def newline_def)
  have "newline \<notin> set (dropWhile isspace (rev x))"
  proof (cases x rule: rev_cases)
    case Nil
    then show ?thesis by simp
  next
    case (snoc ys y)
    with b have ys: "newline \<notin> set ys" by simp
    show ?thesis
    proof (cases "isspace y")
      case True
      with snoc ys show ?thesis
        using set_dropWhileD [of newline isspace "rev ys"] by auto
    next
      case False
      with sp have "y \<noteq> newline" by auto
      with False snoc ys show ?thesis by simp
    qed
  qed
  then show ?thesis by (simp add: strip_def x_def)
qed

lemma split_on_subset_all: "\<forall>w \<in> set (split_on c s). set w \<subseteq> set s"
proof (induction s)
  case Nil
  then show ?case by simp
next
  case (Cons x s)
  show ?case
  proof (cases "x = c")
    case True
    with Cons show ?thesis by auto
  next
    case False
    obtain w ws where sp: "split_on c s = w # ws"
      using split_on_not_Nil [of c s] by (cases "split_on c s") auto
    with Cons have "set w \<subseteq> set s" and "\<forall>u \<in> set ws. set u \<subseteq> set s"
      by simp_all
    with False sp show ?thesis by auto
  qed
qed

lemma split_on_subset: "w \<in> set (split_on c s) \<Longrightarrow> set w \<subseteq> set s"
  using split_on_subset_all by blast

lemma data_to_dict_values:
  assumes "data_to_dict ks vs = Inr items_dict" and "items_dict k = Some v"
  shows "v \<in> set vs"
proof -
  from assms(1) have "items_dict = Map.empty(ks [\<mapsto>] vs)"
    by (simp add: data_to_dict_def split: if_splits)
  with assms(2) have "map_of (rev (zip ks vs)) k = Some v"
    by (simp add: map_upds_def)
  then have "(k, v) \<in> set (zip ks vs)"
    using map_of_SomeD by fastforce
  then show ?thesis by (rule set_zip_rightD)
qed

lemma parsed_values_no_newline:
  assumes "parse_drug_central_line line header_items = Inr items_dict"
    and "newline \<notin> set (butlast line)"
    and "items_dict k = Some v"
  shows "newline \<notin> set v"
proof -
  from data_to_dict_values [OF assms(1) [unfolded parse_drug_central_line_def] assms(3)]
  obtain f where f: "f \<in> set (split_on tab (strip line))" and v: "v = remove_quotes f"
    by auto
  from split_on_subset [OF f] strip_no_newline [OF assms(2)] have "newline \<notin> set f"
    by blast
  with v show ?thesis by (simp add: remove_quotes_def)
qed


lemma join_set: "set (join sep fs) \<subseteq> set sep \<union> \<Union> (set ` set fs)"
  by (induction sep fs rule: join.induct) auto

lemma join_hd: "f \<noteq> [] \<Longrightarrow> hd (join sep (f # fs)) = hd f"
  by (cases fs) simp_all

lemma join_not_Nil: "f \<noteq> [] \<Longrightarrow> join sep (f # fs) \<noteq> []"
  by (cases fs) simp_all

lemma data_line_join:
  assumes "f \<noteq> []" and "hd f \<in> {CHR ''D'', CHR ''U''}"
    and "\<forall>g \<in> set (f # fs). newline \<notin> set g"
  shows "data_line (join [tab] (f # fs) @ [newline])"
proof -
  have "tab \<noteq> newline"
    by (simp add: tab_def newline_def)
  with assms(3) join_set [of "[tab]" "f # fs"] have "newline \<notin> set (join [tab] (f # fs))"
    by auto
  moreover from assms(1) have "hd (join [tab] (f # fs) @ [newline]) = hd f"
    by (simp add: join_hd join_not_Nil)
  ultimately show ?thesis
    using assms(2) by (simp add: data_line_def)
qed

lemma written_ok_append: "written_ok h fh \<Longrightarrow> data_line w \<Longrightarrow> written_ok h (fh @ [w])"
  by (auto simp: written_ok_def)

lemma get_item_single_Some: "get_item_by_priority items_dict [key] = Inr v \<Longrightarrow> items_dict key = Some v"
  by (simp split: option.splits if_splits)

lemma gene_loop_written_ok:
  assumes "\<And>k v. items_dict k = Some v \<Longrightarrow> newline \<notin> set v"
    and "newline \<notin> set drug_id" and "drug_id \<noteq> []" and "hd drug_id = CHR ''D''"
    and "\<forall>g \<in> set gene_ids. newline \<notin> set g"
    and "written_ok hn (node fs)" and "written_ok he (edge fs)"
  shows "written_ok hn (node (snd (gene_loop drug_id items_dict gene_ids fs))) \<and>
         written_ok he (edge (snd (gene_loop drug_id items_dict gene_ids fs)))"
  using assms(5-7)
proof (induction gene_ids arbitrary: fs)
  case Nil
  then show ?case by simp
next
  case (Cons g gene_ids)
  show ?case
  proof (cases "items_dict ''GENE''")
    case None
    with Cons.prems show ?thesis by simp
  next
    case (Some gene)
    note gene = this
    from Cons.prems(1) have g: "newline \<notin> set g" by simp
    have "data_line (join [tab] [gene_curie_prefix @ g, gene, gene_node_type] @ [newline])"
      using g assms(1) [OF gene]
      by (intro data_line_join) (simp_all add: gene_curie_prefix_def gene_node_type_def newline_def)
    with Cons.prems(2) have n: "written_ok hn
        (node fs @ [join [tab] [gene_curie_prefix @ g, gene, gene_node_type] @ [newline]])"
      by (rule written_ok_append)
    show ?thesis
    proof (cases "items_dict ''ACT_COMMENT''")
      case None
      with gene n Cons.prems(3) show ?thesis
        by (simp add: write_node_edge_item_def node_header_def)
    next
      case (Some act_comment)
      have "data_line (join [tab] [drug_id, drug_gene_edge_label, gene_curie_prefix @ g,
          drug_gene_edge_relation, source_name, act_comment] @ [newline])"
        using g assms(1) [OF Some] assms(2-4)
        by (intro data_line_join)
          (simp_all add: gene_curie_prefix_def drug_gene_edge_label_def
            drug_gene_edge_relation_def source_name_def newline_def)
      with Cons.prems(3) have e: "written_ok he
          (edge fs @ [join [tab] [drug_id, drug_gene_edge_label, gene_curie_prefix @ g,
          drug_gene_edge_relation, source_name, act_comment] @ [newline]])"
        by (rule written_ok_append)
      from Cons.prems(1) have rest: "\<forall>g \<in> set gene_ids. newline \<notin> set g" by simp
      from Cons.IH [OF rest, of "fs\<lparr>node := node fs @ [join [tab] [gene_curie_prefix @ g, gene,
          gene_node_type] @ [newline]], edge := edge fs @ [join [tab] [drug_id,
          drug_gene_edge_label, gene_curie_prefix @ g, drug_gene_edge_relation, source_name,
          act_comment] @ [newline]]\<rparr>"] n e gene Some
      show ?thesis
        by (simp add: write_node_edge_item_def node_header_def edge_header_def)
    qed
  qed
qed

lemma process_row_written_ok:
  assumes rows: "\<And>k v. items_dict k = Some v \<Longrightarrow> newline \<notin> set v"
    and n: "written_ok hn (node fs)" and e: "written_ok he (edge fs)"
  shows "written_ok hn (node (snd (process_row species items_dict fs))) \<and>
         written_ok he (edge (snd (process_row species items_dict fs)))"
proof (cases "items_dict ''ORGANISM'' = Some species")
  case False
  with n e show ?thesis by (simp add: process_row_def)
next
  case True
  note org = this
  show ?thesis
  proof (cases "get_item_by_priority items_dict [''ACCESSION'']")
    case (Inl err)
    with org n e show ?thesis
      by (simp add: process_row_def del: get_item_by_priority.simps)
  next
    case (Inr accession)
    note acc = this
    from rows [OF get_item_single_Some [OF acc]] have "newline \<notin> set accession" .
    with split_on_subset [of _ pipe accession]
    have genes: "\<forall>g \<in> set (split_on pipe accession). newline \<notin> set g"
      by blast
    show ?thesis
    proof (cases "get_item_by_priority items_dict [''STRUCT_ID'']")
      case (Inl err)
      with org acc n e show ?thesis
        by (simp add: process_row_def Let_def del: get_item_by_priority.simps)
    next
      case (Inr struct_id)
      note sid = this
      from rows [OF get_item_single_Some [OF sid]] have s: "newline \<notin> set struct_id" .
      show ?thesis
      proof (cases "items_dict ''DRUG_NAME''")
        case None
        from process_row_missing_drug_name [OF org acc sid None] n e show ?thesis
          by simp
      next
        case (Some drug_name)
        have "data_line (join [tab] [drug_curie_prefix @ struct_id, drug_name, drug_node_type]
            @ [newline])"
          using s rows [OF Some]
          by (intro data_line_join)
            (simp_all add: drug_curie_prefix_def drug_node_type_def newline_def)
        with n have n': "written_ok hn (node fs @
            [join [tab] [drug_curie_prefix @ struct_id, drug_name, drug_node_type] @ [newline]])"
          by (rule written_ok_append)
        have d: "newline \<notin> set (drug_curie_prefix @ struct_id)"
          "drug_curie_prefix @ struct_id \<noteq> []" "hd (drug_curie_prefix @ struct_id) = CHR ''D''"
          using s by (simp_all add: drug_curie_prefix_def newline_def)
        from gene_loop_written_ok [OF rows d genes, where hn = hn and he = he and fs = "fs\<lparr>node := node fs @
            [join [tab] [drug_curie_prefix @ struct_id, drug_name, drug_node_type] @ [newline]]\<rparr>"]
          n' e
        show ?thesis
          by (simp add: process_row_to_gene_loop [OF org acc sid Some])
      qed
    qed
  qed
qed

lemma process_lines_written_ok:
  assumes "\<forall>l \<in> set lines. newline \<notin> set (butlast l)"
    and "written_ok hn (node fs)" and "written_ok he (edge fs)"
  shows "written_ok hn (node (snd (process_lines species header_items lines fs))) \<and>
         written_ok he (edge (snd (process_lines species header_items lines fs)))"
  using assms
proof (induction lines arbitrary: fs)
  case Nil
  then show ?case by simp
next
  case (Cons line lines)
  show ?case
  proof (cases "parse_drug_central_line line header_items")
    case (Inl err)
    with Cons.prems show ?thesis by simp
  next
    case (Inr items_dict)
    from Cons.prems(1) have l: "newline \<notin> set (butlast line)" by simp
    obtain r fs' where row: "process_row species items_dict fs = (r, fs')"
      by (cases "process_row species items_dict fs")
    have "written_ok hn (node (snd (process_row species items_dict fs))) \<and>
        written_ok he (edge (snd (process_row species items_dict fs)))"
      using Cons.prems(2,3)
      by (intro process_row_written_ok) (auto dest: parsed_values_no_newline [OF Inr l])
    with row have ok: "written_ok hn (node fs')" "written_ok he (edge fs')"
      by simp_all
    show ?thesis
    proof (cases r)
      case None
      from Cons.prems(1) have "\<forall>l \<in> set lines. newline \<notin> set (butlast l)" by simp
      from Cons.IH [OF this ok] Inr row None show ?thesis by simp
    next
      case (Some err)
      with Inr row ok show ?thesis by simp
    qed
  qed
qed

lemma run_written_ok:
  "written_ok (join [tab] node_header @ [newline]) (node (snd (run species interactions prior))) \<and>
   written_ok (join [tab] edge_header @ [newline]) (edge (snd (run species interactions prior)))"
proof -
  have "\<forall>l \<in> set (tl (file_lines interactions)). newline \<notin> set (butlast l)"
    using file_lines_butlast [of _ interactions] list.set_sel(2) [of "file_lines interactions"]
    by (cases "file_lines interactions") auto
  from process_lines_written_ok [OF this, where hn = "join [tab] node_header @ [newline]"
      and fs = "\<lparr>node = [join [tab] node_header @ [newline]],
        edge = [join [tab] edge_header @ [newline]]\<rparr>"
      and he = "join [tab] edge_header @ [newline]"]
  show ?thesis
    by (simp add: run_def files_reset written_ok_def Let_def)
qed

lemma takeWhile_line:
  "newline \<notin> set b \<Longrightarrow> takeWhile (\<lambda>c. c \<noteq> newline) (b @ newline # r) = b"
  by (induction b) auto

lemma written_ok_file:
  assumes "written_ok (hb @ [newline]) fh" and "newline \<notin> set hb"
    and "hb \<noteq> []" and "hd hb \<notin> {CHR ''D'', CHR ''U''}"
  shows "file_lines (contents fh) = fh" and "first_line (contents fh) = hb"
    and "hd fh = hb @ [newline]" and "count_list fh (hb @ [newline]) = 1"
proof -
  from assms(1) obtain rest where fh: "fh = (hb @ [newline]) # rest"
    and rest: "\<forall>w \<in> set rest. data_line w"
    by (cases fh) (auto simp: written_ok_def)
  from rest assms(2) have "\<forall>w \<in> set fh. w \<noteq> [] \<and> last w = newline \<and> newline \<notin> set (butlast w)"
    by (auto simp: fh data_line_def)
  then show "file_lines (contents fh) = fh"
    unfolding contents_def by (rule file_lines_concat)
  from assms(2) show "first_line (contents fh) = hb"
    by (simp add: fh contents_def first_line_def takeWhile_line)
  show "hd fh = hb @ [newline]"
    by (simp add: fh)
  have "hb @ [newline] \<notin> set rest"
  proof
    assume "hb @ [newline] \<in> set rest"
    with rest have "data_line (hb @ [newline])" by blast
    with assms(3,4) show False by (simp add: data_line_def)
  qed
  then show "count_list fh (hb @ [newline]) = 1"
    by (simp add: fh count_list_0_iff)
qed

text \<open>
  The writes of a run are the lines of the files it leaves: every write is one line.
\<close>

lemma run_writes_are_lines:
  "file_lines (contents (node (snd (run species interactions prior)))) =
     node (snd (run species interactions prior)) \<and>
   file_lines (contents (edge (snd (run species interactions prior)))) =
     edge (snd (run species interactions prior))"
proof -
  have nh: "newline \<notin> set (join [tab] node_header)" "join [tab] node_header \<noteq> []"
    "hd (join [tab] node_header) \<notin> {CHR ''D'', CHR ''U''}"
    by (simp_all add: node_header_def tab_def newline_def)
  have eh: "newline \<notin> set (join [tab] edge_header)" "join [tab] edge_header \<noteq> []"
    "hd (join [tab] edge_header) \<notin> {CHR ''D'', CHR ''U''}"
    by (simp_all add: edge_header_def tab_def newline_def)
  from written_ok_file(1) [OF run_written_ok [THEN conjunct1] nh]
    written_ok_file(1) [OF run_written_ok [THEN conjunct2] eh]
  show ?thesis by simp
qed

text \<open>
  Claim C8. Whatever the input text is, and whether the run ends normally or by an
  exception, the first line of the node file, cut at the tabs, is the node header, and the
  first line of the edge file, cut at the tabs, is \<open>subject, edge_label, object, relation,
  provided_by, comment\<close>. In each file the header line is the first line and occurs exactly
  once among the lines of the file.
\<close>

theorem header_line_first_and_once:
  "split_on tab (first_line (contents (node (snd (run species interactions prior))))) = node_header
   \<and> split_on tab (first_line (contents (edge (snd (run species interactions prior))))) =
       [''subject'', ''edge_label'', ''object'', ''relation'', ''provided_by'', ''comment'']
   \<and> hd (file_lines (contents (node (snd (run species interactions prior))))) =
       join [tab] node_header @ [newline]
   \<and> count_list (file_lines (contents (node (snd (run species interactions prior)))))
       (join [tab] node_header @ [newline]) = 1
   \<and> hd (file_lines (contents (edge (snd (run species interactions prior))))) =
       join [tab] edge_header @ [newline]
   \<and> count_list (file_lines (contents (edge (snd (run species interactions prior)))))
       (join [tab] edge_header @ [newline]) = 1"
proof -
  let ?out = "snd (run species interactions prior)"
  have nh: "newline \<notin> set (join [tab] node_header)" "join [tab] node_header \<noteq> []"
    "hd (join [tab] node_header) \<notin> {CHR ''D'', CHR ''U''}"
    by (simp_all add: node_header_def tab_def newline_def)
  have eh: "newline \<notin> set (join [tab] edge_header)" "join [tab] edge_header \<noteq> []"
    "hd (join [tab] edge_header) \<notin> {CHR ''D'', CHR ''U''}"
    by (simp_all add: edge_header_def tab_def newline_def)
  note n = written_ok_file [OF run_written_ok [THEN conjunct1] nh]
  note e = written_ok_file [OF run_written_ok [THEN conjunct2] eh]
  have sn: "split_on tab (join [tab] node_header) = node_header"
    by (simp add: node_header_def tab_def)
  have se: "split_on tab (join [tab] edge_header) =
      [''subject'', ''edge_label'', ''object'', ''relation'', ''provided_by'', ''comment'']"
    by (simp add: edge_header_def tab_def)
  show ?thesis
    by (simp only: n e sn se simp_thms)
qed

end
